theory Spec2Isabelle
  imports Main "HOL-Library.Word"
begin

section \<open>Data model\<close>

text \<open>
  Ports are Go \<open>int32\<close> values; comparisons with zero are signed. Resource types are Go
  strings (\<open>type ResourceType string\<close>), so any string can occur as a type; the four
  constants of package \<open>ui\<close> are the ones the manager dispatches on.
\<close>

type_synonym int32 = "32 word"
type_synonym ResourceType = string

definition ServiceResource :: ResourceType where
  "ServiceResource = ''service''"

definition PodResource :: ResourceType where
  "PodResource = ''pod''"

definition DeploymentResource :: ResourceType where
  "DeploymentResource = ''deployment''"

definition StatefulSetResource :: ResourceType where
  "StatefulSetResource = ''statefulset''"

lemmas ResourceType_defs =
  ServiceResource_def PodResource_def DeploymentResource_def StatefulSetResource_def

text \<open>
  \<open>intstr.IntOrString\<close> of the Kubernetes API machinery: a tag (\<open>Int = 0\<close>,
  \<open>String = 1\<close>, of an integer type) and the two payloads. A nil pointer to it is
  \<open>None\<close>.
\<close>

record IntOrString =
  Type :: int
  IntVal :: int32
  StrVal :: string

definition intstr_Int :: int where
  "intstr_Int = 0"

definition intstr_String :: int where
  "intstr_String = 1"

record PodPort =
  PodPort_Name :: string
  ContainerPort :: int32
  Protocol :: string
  ContainerName :: string
  IsInitContainer :: bool

record Pod =
  Pod_Name :: string
  Pod_Namespace :: string
  Pod_Ports :: "PodPort list"

record Resource =
  Name :: string
  Namespace :: string
  Resource_Type :: ResourceType
  Ports :: "int32 list"
  PortNames :: "string list"
  TargetPortSpecs :: "IntOrString option list"
  DisplayName :: string

text \<open>
  Errors are values. Each constructor stands for one \<open>fmt.Errorf\<close> site of the source
  (the message is quoted beside it); an error wrapped with \<open>%w\<close> is an argument. The last
  constructor is not a returned error but the Go runtime panic raised by \<open>close\<close> on a
  channel that is already closed.
\<close>

datatype err =
    PortAlreadyAllocated int32
      \<comment> \<open>port %d is already allocated\<close>
  | PortUnavailable int32
      \<comment> \<open>port %d is not available: %w\<close>
  | EphemeralBindFailed
      \<comment> \<open>failed to bind to ephemeral port: %w\<close>
  | EphemeralAllocFailed err
      \<comment> \<open>failed to allocate ephemeral port: %w\<close>
  | AllocLocalFailed err
      \<comment> \<open>failed to allocate local port: %w\<close>
  | AllocRequestedFailed int32 err
      \<comment> \<open>failed to allocate requested local port %d: %w\<close>
  | PortIndexOutOfBounds nat string
      \<comment> \<open>port index %d out of bounds for target port specs of service %s\<close>
  | FindPodsFailed ResourceType string
      \<comment> \<open>failed to find pods for <type> %s: %w\<close>
  | NoBackingPods ResourceType string
      \<comment> \<open>no pods found for <type> %s to forward port\<close>
  | ResolveFailed string int32 string err
      \<comment> \<open>failed to resolve target port for service %s port %d on pod %s: %w\<close>
  | NamedPortNotFound string string string
      \<comment> \<open>named target port '%s' not found on pod '%s' in namespace '%s'\<close>
  | UnknownTargetPortType int
      \<comment> \<open>unknown targetPort type: %v\<close>
  | NoPortsOnPod string ResourceType string
      \<comment> \<open>no container ports found in pod %s for <type> %s\<close>
  | PodNameRequired ResourceType
      \<comment> \<open>pod name is required for %s port forwarding\<close>
  | UnsupportedResourceType ResourceType
      \<comment> \<open>unsupported resource type: %s\<close>
  | RoundTripperFailed
      \<comment> \<open>failed to create round tripper: %w\<close>
  | StartFailed string string err
      \<comment> \<open>failed to start port forward for [<type>] %s [via pod %s]: %w\<close>
  | CreateForwarderFailed
      \<comment> \<open>failed to create port forwarder: %w\<close>
  | CreateForwarderRetryFailed
      \<comment> \<open>failed to create port forwarder for retry: %w\<close>
  | ForwardingFailedAfter nat
      \<comment> \<open>port forwarding failed after %d attempts: %w\<close>
  | PanicCloseOfClosedChannel
      \<comment> \<open>panic: close of closed channel\<close>

section \<open>The outside world\<close>

text \<open>
  The operating system (\<open>net.Listen\<close>), the cluster (\<open>GetPodsFor...\<close>) and the transport
  set-up (\<open>spdy.RoundTripperFor\<close>) are outside the program. Each is an oracle indexed by
  the number of external calls made so far, so that answers may change from one call to the
  next; every call is appended to \<open>events\<close>. \<open>listen k p\<close> is the port bound by the
  \<open>k\<close>-th external call when it is \<open>net.Listen("tcp", ":p")\<close>, \<open>None\<close> when the bind
  fails; for \<open>p = 0\<close> the operating system chooses the port.
\<close>

datatype event = Listen int32 | GetPods ResourceType string | RoundTripperFor

record world =
  listen :: "nat \<Rightarrow> int32 \<Rightarrow> int32 option"
  getPods :: "nat \<Rightarrow> ResourceType \<Rightarrow> string \<Rightarrow> Pod list option"
  roundTripper :: "nat \<Rightarrow> bool"
  events :: "event list"

definition netListen :: "world \<Rightarrow> int32 \<Rightarrow> int32 option \<times> world" where
  "netListen w port =
     (listen w (length (events w)) port, w\<lparr>events := events w @ [Listen port]\<rparr>)"

definition k8sGetPods :: "world \<Rightarrow> ResourceType \<Rightarrow> string \<Rightarrow> Pod list option \<times> world" where
  "k8sGetPods w t name =
     (getPods w (length (events w)) t name, w\<lparr>events := events w @ [GetPods t name]\<rparr>)"

definition spdyRoundTripperFor :: "world \<Rightarrow> bool \<times> world" where
  "spdyRoundTripperFor w =
     (roundTripper w (length (events w)), w\<lparr>events := events w @ [RoundTripperFor]\<rparr>)"

section \<open>PortAllocator\<close>

text \<open>
  \<open>allocatedPorts\<close> is a Go \<open>map[int32]bool\<close>; reading an absent key gives \<open>false\<close>.
  The mutex is not modelled: every operation below runs to completion on the table.
\<close>

record PortAllocator =
  allocatedPorts :: "int32 \<rightharpoonup> bool"

definition NewPortAllocator :: PortAllocator where
  "NewPortAllocator = \<lparr>allocatedPorts = Map.empty\<rparr>"

definition lookupPort :: "PortAllocator \<Rightarrow> int32 \<Rightarrow> bool" where
  "lookupPort pa port = (case allocatedPorts pa port of Some b \<Rightarrow> b | None \<Rightarrow> False)"

definition ReleasePort :: "PortAllocator \<Rightarrow> int32 \<Rightarrow> PortAllocator" where
  "ReleasePort pa port = pa\<lparr>allocatedPorts := (allocatedPorts pa)(port := None)\<rparr>"

definition findAvailableEphemeralPort ::
  "world \<Rightarrow> PortAllocator \<Rightarrow> (err + int32) \<times> world \<times> PortAllocator" where
  "findAvailableEphemeralPort w pa =
     (case netListen w 0 of
        (None, w') \<Rightarrow> (Inl EphemeralBindFailed, w', pa)
      | (Some port, w') \<Rightarrow>
          (Inr port, w', pa\<lparr>allocatedPorts := (allocatedPorts pa)(port \<mapsto> True)\<rparr>))"

definition reserveSpecificPort ::
  "world \<Rightarrow> PortAllocator \<Rightarrow> int32 \<Rightarrow> err option \<times> world \<times> PortAllocator" where
  "reserveSpecificPort w pa port =
     (if lookupPort pa port then (Some (PortAlreadyAllocated port), w, pa)
      else
        (case netListen w port of
           (None, w') \<Rightarrow> (Some (PortUnavailable port), w', pa)
         | (Some _, w') \<Rightarrow>
             (None, w', pa\<lparr>allocatedPorts := (allocatedPorts pa)(port \<mapsto> True)\<rparr>)))"

definition AllocatePort ::
  "world \<Rightarrow> PortAllocator \<Rightarrow> int32 \<Rightarrow> (err + int32) \<times> world \<times> PortAllocator" where
  "AllocatePort w pa requestedPort =
     (if 0 <s requestedPort then
        (case reserveSpecificPort w pa requestedPort of
           (Some e, w', pa') \<Rightarrow> (Inl e, w', pa')
         | (None, w', pa') \<Rightarrow> (Inr requestedPort, w', pa'))
      else
        (case findAvailableEphemeralPort w pa of
           (Inl e, w', pa') \<Rightarrow> (Inl (EphemeralAllocFailed e), w', pa')
         | (Inr port, w', pa') \<Rightarrow> (Inr port, w', pa')))"

text \<open>\<open>IsPortAvailable\<close>: a bind and release that never reads the allocator's table.\<close>

definition IsPortAvailable :: "world \<Rightarrow> int32 \<Rightarrow> bool \<times> world" where
  "IsPortAvailable w port =
     (case netListen w port of (None, w') \<Rightarrow> (False, w') | (Some _, w') \<Rightarrow> (True, w'))"

section \<open>Target port resolution (resolveTargetPort)\<close>

text \<open>The loop over \<open>pod.Ports\<close> that returns at the first entry with the wanted name.\<close>

fun findNamedPort :: "string \<Rightarrow> PodPort list \<Rightarrow> int32 option" where
  "findNamedPort portName [] = None"
| "findNamedPort portName (podPort # rest) =
     (if PodPort_Name podPort = portName then Some (ContainerPort podPort)
      else findNamedPort portName rest)"

definition resolveTargetPort :: "IntOrString option \<Rightarrow> int32 \<Rightarrow> Pod \<Rightarrow> err + int32" where
  "resolveTargetPort targetSpec servicePort pod =
     (case targetSpec of
        None \<Rightarrow> Inr servicePort
      | Some ts \<Rightarrow>
          if Type ts = intstr_Int then
            (if IntVal ts = 0 then Inr servicePort else Inr (IntVal ts))
          else if Type ts = intstr_String then
            (case findNamedPort (StrVal ts) (Pod_Ports pod) of
               Some p \<Rightarrow> Inr p
             | None \<Rightarrow>
                 Inl (NamedPortNotFound (StrVal ts) (Pod_Name pod) (Pod_Namespace pod)))
          else Inl (UnknownTargetPortType (Type ts)))"

section \<open>ForwardSession (portforward.go)\<close>

text \<open>
  A \<open>time.Duration\<close> is a number of nanoseconds. The source doubles the backoff through
  \<open>float64\<close>; the backoff never exceeds \<open>MaxBackoff\<close>, far below \<open>2^53\<close>, so the
  product is exact and is modelled on integers.
\<close>

type_synonym Duration = int

definition Second :: Duration where
  "Second = 1000000000"

definition MaxRetries :: nat where
  "MaxRetries = 5"

definition InitialBackoff :: Duration where
  "InitialBackoff = 1 * Second"

definition MaxBackoff :: Duration where
  "MaxBackoff = 30 * Second"

definition BackoffFactor :: int where
  "BackoffFactor = 2"

definition AutoRetryEnable :: bool where
  "AutoRetryEnable = True"

text \<open>
  The stop channel carries no values: it is only ever closed and received from, so its
  state is whether it has been closed. The error channel is the sequence of errors sent on
  it. The ready channel and the transport handle \<open>ForwardFn\<close> belong to the tunnel
  provider and are left out.
\<close>

datatype chan = Open | Closed

record PortForwarder =
  Resource :: Resource
  LocalPort :: int32
  RemotePort :: int32
  StopChannel :: chan
  ErrorChannel :: "err list"
  AutoRetry :: bool
  RetryAttempts :: nat

record ForwardRequest =
  req_Resource :: Resource
  req_LocalPort :: int32
  req_RemotePort :: int32
  PodName :: string
  req_AutoRetry :: bool

text \<open>Go's \<open>close(ch)\<close>: closing a channel that is already closed panics.\<close>

definition closeChan :: "chan \<Rightarrow> err + chan" where
  "closeChan c = (case c of Open \<Rightarrow> Inr Closed | Closed \<Rightarrow> Inl PanicCloseOfClosedChannel)"

text \<open>
  \<open>StartPortForward\<close> up to the point where it spawns the goroutine and returns the
  forwarder. The goroutine's body is \<open>forwardGoroutine\<close> below. The request's REST
  configuration is taken to be present (the manager always passes its own); whether the
  round tripper can be built from it is the world's answer.
\<close>

definition StartPortForward :: "world \<Rightarrow> ForwardRequest \<Rightarrow> (err + PortForwarder) \<times> world" where
  "StartPortForward w req =
     (let t = Resource_Type (req_Resource req) in
      if (t = ServiceResource \<or> t = DeploymentResource \<or> t = StatefulSetResource) \<and>
         PodName req = [] then
        (Inl (PodNameRequired t), w)
      else if t \<noteq> ServiceResource \<and> t \<noteq> DeploymentResource \<and> t \<noteq> StatefulSetResource \<and>
              t \<noteq> PodResource then
        (Inl (UnsupportedResourceType t), w)
      else
        (case spdyRoundTripperFor w of
           (False, w') \<Rightarrow> (Inl RoundTripperFailed, w')
         | (True, w') \<Rightarrow>
             (let autoRetry = (if req_AutoRetry req then req_AutoRetry req else AutoRetryEnable)
              in (Inr \<lparr>Resource = req_Resource req, LocalPort = req_LocalPort req,
                       RemotePort = req_RemotePort req, StopChannel = Open,
                       ErrorChannel = [], AutoRetry = autoRetry, RetryAttempts = 0\<rparr>, w'))))"

text \<open>
  The tunnel provider and the callers of \<open>Stop\<close> as seen from the goroutine.
  \<open>newOK k\<close>: the \<open>k\<close>-th \<open>portforward.New\<close> (counted from 0) succeeds.
  \<open>forwardFails k\<close>: the \<open>ForwardPorts\<close> call made with \<open>retryCount = k\<close> returns an
  error (otherwise it returns nil). \<open>stopAtCheck k\<close> and \<open>stopDuringWait k\<close>: somebody
  else has closed the stop channel by the time of the \<open>select\<close> at the top of the loop,
  or during the backoff wait, of the iteration with \<open>retryCount = k\<close>.
\<close>

record provider =
  newOK :: "nat \<Rightarrow> bool"
  forwardFails :: "nat \<Rightarrow> bool"
  stopAtCheck :: "nat \<Rightarrow> bool"
  stopDuringWait :: "nat \<Rightarrow> bool"

datatype loop_exit = StopObserved | ForwardingEnded | GaveUp | NewFailed | Panicked

text \<open>\<open>errorChannel <- e; close(stopChannel); return\<close>\<close>

definition sendErrorAndClose ::
  "loop_exit \<Rightarrow> err \<Rightarrow> PortForwarder \<Rightarrow> Duration list \<Rightarrow>
   loop_exit \<times> PortForwarder \<times> Duration list" where
  "sendErrorAndClose x e fw waits =
     (let fw1 = fw\<lparr>ErrorChannel := ErrorChannel fw @ [e]\<rparr> in
      case closeChan (StopChannel fw1) of
        Inl _ \<Rightarrow> (Panicked, fw1, waits)
      | Inr c \<Rightarrow> (x, fw1\<lparr>StopChannel := c\<rparr>, waits))"

definition nextBackoff :: "Duration \<Rightarrow> Duration" where
  "nextBackoff backoff =
     (let b = backoff * BackoffFactor in if b > MaxBackoff then MaxBackoff else b)"

text \<open>
  The \<open>for\<close> loop of the goroutine. \<open>waits\<close> collects the durations of the backoff waits
  that ran to their end, in order.
\<close>

function forwardLoop ::
  "provider \<Rightarrow> PortForwarder \<Rightarrow> nat \<Rightarrow> Duration \<Rightarrow> Duration list \<Rightarrow>
   loop_exit \<times> PortForwarder \<times> Duration list" where
  "forwardLoop pr fw retryCount backoff waits =
     (if StopChannel fw = Closed \<or> stopAtCheck pr retryCount then
        (StopObserved, fw\<lparr>StopChannel := Closed\<rparr>, waits)
      else if \<not> forwardFails pr retryCount then (ForwardingEnded, fw, waits)
      else if \<not> AutoRetry fw \<or> retryCount \<ge> MaxRetries then
        sendErrorAndClose GaveUp (ForwardingFailedAfter (retryCount + 1)) fw waits
      else if stopDuringWait pr retryCount then
        (StopObserved, fw\<lparr>StopChannel := Closed\<rparr>, waits)
      else if \<not> newOK pr (retryCount + 1) then
        sendErrorAndClose NewFailed CreateForwarderRetryFailed fw (waits @ [backoff])
      else
        forwardLoop pr (fw\<lparr>RetryAttempts := retryCount + 1\<rparr>) (retryCount + 1)
          (nextBackoff backoff) (waits @ [backoff]))"
  by pat_completeness auto
termination
  by (relation "measure (\<lambda>(pr, fw, retryCount, backoff, waits). MaxRetries - retryCount)") auto

declare forwardLoop.simps [simp del]

definition forwardGoroutine ::
  "provider \<Rightarrow> PortForwarder \<Rightarrow> loop_exit \<times> PortForwarder \<times> Duration list" where
  "forwardGoroutine pr fw =
     (if \<not> newOK pr 0 then sendErrorAndClose NewFailed CreateForwarderFailed fw []
      else forwardLoop pr fw 0 InitialBackoff [])"

text \<open>\<open>PortForwarder.Stop\<close>: \<open>close(pf.StopChannel)\<close>.\<close>

definition Stop :: "PortForwarder \<Rightarrow> err + PortForwarder" where
  "Stop pf =
     (case closeChan (StopChannel pf) of
        Inl e \<Rightarrow> Inl e
      | Inr c \<Rightarrow> Inr (pf\<lparr>StopChannel := c\<rparr>))"

section \<open>SessionManager (Manager)\<close>

text \<open>
  The manager's own state is its list of forwarders and its port allocator; the cluster
  client and the REST configuration are the oracles of \<open>world\<close>. The list holds pointers
  in the source; every forwarder is appended once, so a list of records is the same thing.
  The mutex, the wait group and the monitor goroutines (which print the status line and
  release the port of a session that reports an error) are not modelled. Every operation
  returns the error it returned (or the panic it raised) together with the state it left
  behind.
\<close>

record Manager =
  Forwarders :: "PortForwarder list"
  PortAllocator :: PortAllocator

definition NewManager :: Manager where
  "NewManager = \<lparr>Forwarders = [], PortAllocator = NewPortAllocator\<rparr>"

text \<open>The loop of \<open>stopResourceForwarders\<close>; a panic leaves the rest of the list untouched.\<close>

fun stopResourceForwarders_loop ::
  "Resource \<Rightarrow> PortForwarder list \<Rightarrow> PortAllocator \<Rightarrow>
   err option \<times> PortForwarder list \<times> PortAllocator" where
  "stopResourceForwarders_loop resource [] pa = (None, [], pa)"
| "stopResourceForwarders_loop resource (fw # fws) pa =
     (if Name (Resource fw) = Name resource \<and> Namespace (Resource fw) = Namespace resource then
        (case Stop fw of
           Inl e \<Rightarrow> (Some e, fw # fws, pa)
         | Inr fw' \<Rightarrow>
             (case stopResourceForwarders_loop resource fws (ReleasePort pa (LocalPort fw')) of
                (e, fws', pa') \<Rightarrow> (e, fw' # fws', pa')))
      else
        (case stopResourceForwarders_loop resource fws pa of
           (e, fws', pa') \<Rightarrow> (e, fw # fws', pa')))"

definition stopResourceForwarders :: "Manager \<Rightarrow> Resource \<Rightarrow> err option \<times> Manager" where
  "stopResourceForwarders m resource =
     (case stopResourceForwarders_loop resource (Forwarders m) (PortAllocator m) of
        (e, fws, pa) \<Rightarrow> (e, m\<lparr>Forwarders := fws, PortAllocator := pa\<rparr>))"

text \<open>\<open>Manager.Stop\<close>: stop every forwarder in order and release its port.\<close>

fun Manager_Stop_loop ::
  "PortForwarder list \<Rightarrow> PortAllocator \<Rightarrow> err option \<times> PortForwarder list \<times> PortAllocator" where
  "Manager_Stop_loop [] pa = (None, [], pa)"
| "Manager_Stop_loop (forwarder # fws) pa =
     (case Stop forwarder of
        Inl e \<Rightarrow> (Some e, forwarder # fws, pa)
      | Inr forwarder' \<Rightarrow>
          (case Manager_Stop_loop fws (ReleasePort pa (LocalPort forwarder')) of
             (e, fws', pa') \<Rightarrow> (e, forwarder' # fws', pa')))"

definition Manager_Stop :: "Manager \<Rightarrow> err option \<times> Manager" where
  "Manager_Stop m =
     (case Manager_Stop_loop (Forwarders m) (PortAllocator m) of
        (e, fws, pa) \<Rightarrow> (e, m\<lparr>Forwarders := fws, PortAllocator := pa\<rparr>))"

text \<open>
  The allocation block that each of the four forwarding paths repeats word for word
  (\<open>if localPort == 0 { ... } else { ... }\<close>): with no local port given, try the suggested
  port and then an ephemeral one; with a local port given, try that port only.
\<close>

definition allocateLocalPort ::
  "world \<Rightarrow> PortAllocator \<Rightarrow> int32 \<Rightarrow> int32 \<Rightarrow> (err + int32) \<times> world \<times> PortAllocator" where
  "allocateLocalPort w pa localPort suggestedPort =
     (if localPort = 0 then
        (case AllocatePort w pa suggestedPort of
           (Inr allocatedPort, w1, pa1) \<Rightarrow> (Inr allocatedPort, w1, pa1)
         | (Inl _, w1, pa1) \<Rightarrow>
             (case AllocatePort w1 pa1 0 of
                (Inr allocatedPort, w2, pa2) \<Rightarrow> (Inr allocatedPort, w2, pa2)
              | (Inl e, w2, pa2) \<Rightarrow> (Inl (AllocLocalFailed e), w2, pa2)))
      else
        (case AllocatePort w pa localPort of
           (Inr _, w1, pa1) \<Rightarrow> (Inr localPort, w1, pa1)
         | (Inl e, w1, pa1) \<Rightarrow> (Inl (AllocRequestedFailed localPort e), w1, pa1)))"

text \<open>
  The tail that the four paths share as well: build the request (with \<open>AutoRetry: true\<close>),
  call \<open>StartPortForward\<close>; on failure release the local port, stop the resource's
  forwarders and return the wrapped error; on success append the forwarder.
\<close>

definition startAndRegister ::
  "world \<Rightarrow> Manager \<Rightarrow> Resource \<Rightarrow> int32 \<Rightarrow> int32 \<Rightarrow> string \<Rightarrow> err option \<times> world \<times> Manager" where
  "startAndRegister w m resource localPort remotePort podName =
     (let req = \<lparr>req_Resource = resource, req_LocalPort = localPort,
                 req_RemotePort = remotePort, PodName = podName, req_AutoRetry = True\<rparr>
      in case StartPortForward w req of
           (Inl e, w') \<Rightarrow>
             (case stopResourceForwarders
                     (m\<lparr>PortAllocator := ReleasePort (PortAllocator m) localPort\<rparr>) resource of
                (Some panic, m') \<Rightarrow> (Some panic, w', m')
              | (None, m') \<Rightarrow> (Some (StartFailed (Name resource) podName e), w', m'))
         | (Inr forwarder, w') \<Rightarrow> (None, w', m\<lparr>Forwarders := Forwarders m @ [forwarder]\<rparr>))"

text \<open>
  The allocation block followed by the tail, as each path runs them once its remote port is
  known. An allocation error is returned as it is: nothing is released or stopped.
\<close>

definition allocateAndStart ::
  "world \<Rightarrow> Manager \<Rightarrow> Resource \<Rightarrow> int32 \<Rightarrow> int32 \<Rightarrow> string \<Rightarrow> err option \<times> world \<times> Manager" where
  "allocateAndStart w m resource localPort remotePort podName =
     (case allocateLocalPort w (PortAllocator m) localPort remotePort of
        (Inl e, w1, pa1) \<Rightarrow> (Some e, w1, m\<lparr>PortAllocator := pa1\<rparr>)
      | (Inr allocated, w1, pa1) \<Rightarrow>
          startAndRegister w1 (m\<lparr>PortAllocator := pa1\<rparr>) resource allocated remotePort podName)"

definition forwardServicePort ::
  "world \<Rightarrow> Manager \<Rightarrow> Resource \<Rightarrow> nat \<Rightarrow> int32 \<Rightarrow> int32 \<Rightarrow> err option \<times> world \<times> Manager" where
  "forwardServicePort w m resource portIndex localPort servicePort =
     (if portIndex \<ge> length (TargetPortSpecs resource) then
        (Some (PortIndexOutOfBounds portIndex (Name resource)), w, m)
      else
        (let targetSpec = TargetPortSpecs resource ! portIndex in
         case k8sGetPods w ServiceResource (Name resource) of
           (None, w1) \<Rightarrow> (Some (FindPodsFailed ServiceResource (Name resource)), w1, m)
         | (Some [], w1) \<Rightarrow> (Some (NoBackingPods ServiceResource (Name resource)), w1, m)
         | (Some (selectedPod # _), w1) \<Rightarrow>
             (case resolveTargetPort targetSpec servicePort selectedPod of
                Inl e \<Rightarrow>
                  (Some (ResolveFailed (Name resource) servicePort (Pod_Name selectedPod) e),
                   w1, m)
              | Inr resolvedPodPort \<Rightarrow>
                  allocateAndStart w1 m resource localPort resolvedPodPort
                    (Pod_Name selectedPod))))"

text \<open>
  The container port of a deployment's or stateful set's backing pod, chosen by position:
  \<open>Ports[portIndex]\<close> when in range, else \<open>Ports[0]\<close> when there is one, else nothing.
\<close>

definition podPortAt :: "nat \<Rightarrow> Pod \<Rightarrow> int32 option" where
  "podPortAt portIndex selectedPod =
     (if portIndex < length (Pod_Ports selectedPod) then
        Some (ContainerPort (Pod_Ports selectedPod ! portIndex))
      else if length (Pod_Ports selectedPod) > 0 then
        Some (ContainerPort (Pod_Ports selectedPod ! 0))
      else None)"

definition forwardDeploymentPort ::
  "world \<Rightarrow> Manager \<Rightarrow> Resource \<Rightarrow> nat \<Rightarrow> int32 \<Rightarrow> int32 \<Rightarrow> err option \<times> world \<times> Manager" where
  "forwardDeploymentPort w m resource portIndex localPort deploymentPort =
     (case k8sGetPods w DeploymentResource (Name resource) of
        (None, w1) \<Rightarrow> (Some (FindPodsFailed DeploymentResource (Name resource)), w1, m)
      | (Some [], w1) \<Rightarrow> (Some (NoBackingPods DeploymentResource (Name resource)), w1, m)
      | (Some (selectedPod # _), w1) \<Rightarrow>
          (case podPortAt portIndex selectedPod of
             None \<Rightarrow>
               (Some (NoPortsOnPod (Pod_Name selectedPod) DeploymentResource (Name resource)),
                w1, m)
           | Some podPort \<Rightarrow>
               allocateAndStart w1 m resource localPort podPort (Pod_Name selectedPod)))"

definition forwardStatefulSetPort ::
  "world \<Rightarrow> Manager \<Rightarrow> Resource \<Rightarrow> nat \<Rightarrow> int32 \<Rightarrow> int32 \<Rightarrow> err option \<times> world \<times> Manager" where
  "forwardStatefulSetPort w m resource portIndex localPort statefulSetPort =
     (case k8sGetPods w StatefulSetResource (Name resource) of
        (None, w1) \<Rightarrow> (Some (FindPodsFailed StatefulSetResource (Name resource)), w1, m)
      | (Some [], w1) \<Rightarrow> (Some (NoBackingPods StatefulSetResource (Name resource)), w1, m)
      | (Some (selectedPod # _), w1) \<Rightarrow>
          (case podPortAt portIndex selectedPod of
             None \<Rightarrow>
               (Some (NoPortsOnPod (Pod_Name selectedPod) StatefulSetResource (Name resource)),
                w1, m)
           | Some podPort \<Rightarrow>
               allocateAndStart w1 m resource localPort podPort (Pod_Name selectedPod)))"

text \<open>The \<open>default\<close> branch of the switch in \<open>ForwardResource\<close> (pods).\<close>

definition forwardPodPort ::
  "world \<Rightarrow> Manager \<Rightarrow> Resource \<Rightarrow> int32 \<Rightarrow> int32 \<Rightarrow> err option \<times> world \<times> Manager" where
  "forwardPodPort w m resource localPort podContainerPort =
     allocateAndStart w m resource localPort podContainerPort []"

text \<open>
  The first block of the loop body of \<open>ForwardResource\<close>: the local port for the port at
  index \<open>i\<close>. The port mapping is a Go \<open>map[int]int32\<close>, read only at the indices of
  the loop.
\<close>

definition localPortFor :: "Resource \<Rightarrow> (nat \<rightharpoonup> int32) \<Rightarrow> nat \<Rightarrow> int32 \<Rightarrow> int32" where
  "localPortFor resource portMapping i portValue =
     (case portMapping i of
        Some mappedPort \<Rightarrow> mappedPort
      | None \<Rightarrow>
          if Resource_Type resource = ServiceResource \<or>
             Resource_Type resource = DeploymentResource \<or>
             Resource_Type resource = StatefulSetResource
          then 0 else portValue)"

text \<open>\<open>ForwardResource\<close>: the loop over \<open>resource.Ports\<close> with its index.\<close>

fun ForwardResource_loop ::
  "world \<Rightarrow> Manager \<Rightarrow> Resource \<Rightarrow> (nat \<rightharpoonup> int32) \<Rightarrow> nat \<Rightarrow> int32 list \<Rightarrow>
   err option \<times> world \<times> Manager" where
  "ForwardResource_loop w m resource portMapping i [] = (None, w, m)"
| "ForwardResource_loop w m resource portMapping i (portValue # rest) =
     (let localPort = localPortFor resource portMapping i portValue
      in case (if Resource_Type resource = ServiceResource then
                 forwardServicePort w m resource i localPort portValue
               else if Resource_Type resource = DeploymentResource then
                 forwardDeploymentPort w m resource i localPort portValue
               else if Resource_Type resource = StatefulSetResource then
                 forwardStatefulSetPort w m resource i localPort portValue
               else forwardPodPort w m resource localPort portValue) of
           (Some e, w', m') \<Rightarrow> (Some e, w', m')
         | (None, w', m') \<Rightarrow> ForwardResource_loop w' m' resource portMapping (Suc i) rest)"

definition ForwardResource ::
  "world \<Rightarrow> Manager \<Rightarrow> Resource \<Rightarrow> (nat \<rightharpoonup> int32) \<Rightarrow> err option \<times> world \<times> Manager" where
  "ForwardResource w m resource portMapping =
     ForwardResource_loop w m resource portMapping 0 (Ports resource)"

section \<open>Concrete inputs\<close>

text \<open>A pod with three container ports, two of them with the same name.\<close>

definition examplePod :: Pod where
  "examplePod = \<lparr>Pod_Name = ''web-0'', Pod_Namespace = ''default'', Pod_Ports =
     [\<lparr>PodPort_Name = ''metrics'', ContainerPort = 9100, Protocol = ''TCP'',
        ContainerName = ''app'', IsInitContainer = False\<rparr>,
      \<lparr>PodPort_Name = ''http'', ContainerPort = 8080, Protocol = ''TCP'',
        ContainerName = ''app'', IsInitContainer = False\<rparr>,
      \<lparr>PodPort_Name = ''http'', ContainerPort = 9090, Protocol = ''TCP'',
        ContainerName = ''sidecar'', IsInitContainer = False\<rparr>]\<rparr>"

text \<open>An allocation table that holds two ports, and two operating systems: one where
  every port can be bound, one where only ephemeral binds succeed.\<close>

definition exampleTable :: PortAllocator where
  "exampleTable = \<lparr>allocatedPorts = [8080 \<mapsto> True, 9090 \<mapsto> True]\<rparr>"

definition freeWorld :: world where
  "freeWorld = \<lparr>listen = (\<lambda>k p. if p = 0 then Some (40000 + of_nat k) else Some p),
                getPods = (\<lambda>k t n. None), roundTripper = (\<lambda>k. True), events = []\<rparr>"

definition busyWorld :: world where
  "busyWorld = \<lparr>listen = (\<lambda>k p. if p = 0 then Some (40000 + of_nat k) else None),
                getPods = (\<lambda>k t n. None), roundTripper = (\<lambda>k. True), events = []\<rparr>"

text \<open>A tunnel provider whose every attempt fails while nobody stops the session, a
  forwarder as \<open>StartPortForward\<close> returns it for a pod, and the request that makes it.\<close>

definition alwaysFailing :: provider where
  "alwaysFailing = \<lparr>newOK = (\<lambda>k. True), forwardFails = (\<lambda>k. True),
                     stopAtCheck = (\<lambda>k. False), stopDuringWait = (\<lambda>k. False)\<rparr>"

definition freshForwarder :: PortForwarder where
  "freshForwarder =
     \<lparr>Resource = \<lparr>Name = ''p1'', Namespace = ''default'', Resource_Type = PodResource,
                   Ports = [9090], PortNames = [''''], TargetPortSpecs = [],
                   DisplayName = ''p1''\<rparr>,
      LocalPort = 9090, RemotePort = 9090, StopChannel = Open, ErrorChannel = [],
      AutoRetry = True, RetryAttempts = 0\<rparr>"

definition podRequest :: "bool \<Rightarrow> ForwardRequest" where
  "podRequest autoRetry =
     \<lparr>req_Resource = \<lparr>Name = ''p1'', Namespace = ''default'', Resource_Type = PodResource,
                       Ports = [9090], PortNames = [''''], TargetPortSpecs = [],
                       DisplayName = ''p1''\<rparr>,
      req_LocalPort = 9090, req_RemotePort = 9090, PodName = [], req_AutoRetry = autoRetry\<rparr>"

text \<open>A manager with one live forwarder whose local port is in the allocation table.\<close>

definition onePortManager :: Manager where
  "onePortManager =
     \<lparr>Forwarders = [freshForwarder], PortAllocator = \<lparr>allocatedPorts = [9090 \<mapsto> True]\<rparr>\<rparr>"

text \<open>
  The forwarder above after its goroutine has given up, a second live forwarder, and a
  manager that holds both: the first session has ended by itself (its port taken to be
  released already), the second is still forwarding on local port 9091.
\<close>

definition gaveUpForwarder :: PortForwarder where
  "gaveUpForwarder =
     freshForwarder\<lparr>RetryAttempts := 5, ErrorChannel := [ForwardingFailedAfter 6],
                    StopChannel := Closed\<rparr>"

definition otherForwarder :: PortForwarder where
  "otherForwarder = freshForwarder\<lparr>LocalPort := 9091, RemotePort := 9091\<rparr>"

definition twoSessionManager :: Manager where
  "twoSessionManager =
     \<lparr>Forwarders = [gaveUpForwarder, otherForwarder],
      PortAllocator = \<lparr>allocatedPorts = [9091 \<mapsto> True]\<rparr>\<rparr>"

text \<open>A cluster that answers every pod query with the given pods (every bind succeeds),
  a pod without container ports, and a deployment and a stateful set to forward.\<close>

definition clusterWorld :: "Pod list \<Rightarrow> world" where
  "clusterWorld pods =
     \<lparr>listen = (\<lambda>k p. if p = 0 then Some (40000 + of_nat k) else Some p),
      getPods = (\<lambda>k t n. Some pods), roundTripper = (\<lambda>k. True), events = []\<rparr>"

definition barePod :: Pod where
  "barePod = \<lparr>Pod_Name = ''db-0'', Pod_Namespace = ''default'', Pod_Ports = []\<rparr>"

definition webDeployment :: Resource where
  "webDeployment =
     \<lparr>Name = ''web'', Namespace = ''default'', Resource_Type = DeploymentResource,
      Ports = [9100, 8080], PortNames = [''metrics'', ''http''], TargetPortSpecs = [],
      DisplayName = ''web''\<rparr>"

definition dbStatefulSet :: Resource where
  "dbStatefulSet =
     \<lparr>Name = ''db'', Namespace = ''default'', Resource_Type = StatefulSetResource,
      Ports = [5432], PortNames = [''pg''], TargetPortSpecs = [],
      DisplayName = ''db''\<rparr>"

text \<open>A cluster whose specific binds all fail while ephemeral binds succeed, a service
  with one named target port, a service with two ports, and a cluster where the transport
  set-up fails at the sixth external call (the second port's session start).\<close>

definition busyCluster :: "Pod list \<Rightarrow> world" where
  "busyCluster pods =
     \<lparr>listen = (\<lambda>k p. if p = 0 then Some (40000 + of_nat k) else None),
      getPods = (\<lambda>k t n. Some pods), roundTripper = (\<lambda>k. True), events = []\<rparr>"

definition webService :: Resource where
  "webService =
     \<lparr>Name = ''web'', Namespace = ''default'', Resource_Type = ServiceResource,
      Ports = [80], PortNames = [''http''],
      TargetPortSpecs = [Some \<lparr>Type = intstr_String, IntVal = 0, StrVal = ''http''\<rparr>],
      DisplayName = ''web''\<rparr>"

definition twoPortService :: Resource where
  "twoPortService =
     \<lparr>Name = ''web'', Namespace = ''default'', Resource_Type = ServiceResource,
      Ports = [80, 443], PortNames = [''http'', ''https''],
      TargetPortSpecs = [Some \<lparr>Type = intstr_String, IntVal = 0, StrVal = ''http''\<rparr>, None],
      DisplayName = ''web''\<rparr>"

definition flakyTransport :: "Pod list \<Rightarrow> world" where
  "flakyTransport pods =
     \<lparr>listen = (\<lambda>k p. if p = 0 then Some (40000 + of_nat k) else Some p),
      getPods = (\<lambda>k t n. Some pods), roundTripper = (\<lambda>k. k < 5), events = []\<rparr>"

section \<open>Target port resolution: properties\<close>

lemma findNamedPort_None_iff:
  "findNamedPort n ps = None \<longleftrightarrow> (\<forall>q\<in>set ps. PodPort_Name q \<noteq> n)"
  by (induction ps) auto

lemma findNamedPort_Some_iff:
  "findNamedPort n ps = Some c \<longleftrightarrow>
     (\<exists>pre p post. ps = pre @ p # post \<and> (\<forall>q\<in>set pre. PodPort_Name q \<noteq> n) \<and>
        PodPort_Name p = n \<and> c = ContainerPort p)"
proof (induction ps)
  case Nil
  then show ?case by simp
next
  case (Cons a ps)
  show ?case
  proof (cases "PodPort_Name a = n")
    case True
    have "(\<exists>pre p post. a # ps = pre @ p # post \<and> (\<forall>q\<in>set pre. PodPort_Name q \<noteq> n) \<and>
        PodPort_Name p = n \<and> c = ContainerPort p) \<longleftrightarrow> c = ContainerPort a"
    proof
      assume "\<exists>pre p post. a # ps = pre @ p # post \<and> (\<forall>q\<in>set pre. PodPort_Name q \<noteq> n) \<and>
        PodPort_Name p = n \<and> c = ContainerPort p"
      then obtain pre p post where h: "a # ps = pre @ p # post"
        "\<forall>q\<in>set pre. PodPort_Name q \<noteq> n" "PodPort_Name p = n" "c = ContainerPort p" by blast
      show "c = ContainerPort a"
      proof (cases pre)
        case Nil
        with h show ?thesis by simp
      next
        case (Cons x xs)
        with h True show ?thesis by auto
      qed
    next
      assume "c = ContainerPort a"
      then have "a # ps = [] @ a # ps \<and> (\<forall>q\<in>set []. PodPort_Name q \<noteq> n) \<and>
        PodPort_Name a = n \<and> c = ContainerPort a" using True by simp
      then show "\<exists>pre p post. a # ps = pre @ p # post \<and> (\<forall>q\<in>set pre. PodPort_Name q \<noteq> n) \<and>
        PodPort_Name p = n \<and> c = ContainerPort p" by blast
    qed
    with True show ?thesis by auto
  next
    case False
    have "(\<exists>pre p post. a # ps = pre @ p # post \<and> (\<forall>q\<in>set pre. PodPort_Name q \<noteq> n) \<and>
        PodPort_Name p = n \<and> c = ContainerPort p) \<longleftrightarrow>
      (\<exists>pre p post. ps = pre @ p # post \<and> (\<forall>q\<in>set pre. PodPort_Name q \<noteq> n) \<and>
        PodPort_Name p = n \<and> c = ContainerPort p)" (is "?L \<longleftrightarrow> ?R")
    proof
      assume ?L
      then obtain pre p post where h: "a # ps = pre @ p # post"
        "\<forall>q\<in>set pre. PodPort_Name q \<noteq> n" "PodPort_Name p = n" "c = ContainerPort p" by blast
      show ?R
      proof (cases pre)
        case Nil
        with h False show ?thesis by simp
      next
        case (Cons x xs)
        with h have "ps = xs @ p # post \<and> (\<forall>q\<in>set xs. PodPort_Name q \<noteq> n)" by simp
        with h show ?thesis by blast
      qed
    next
      assume ?R
      then obtain pre p post where h: "ps = pre @ p # post"
        "\<forall>q\<in>set pre. PodPort_Name q \<noteq> n" "PodPort_Name p = n" "c = ContainerPort p" by blast
      then have "a # ps = (a # pre) @ p # post \<and> (\<forall>q\<in>set (a # pre). PodPort_Name q \<noteq> n)"
        using False by simp
      with h show ?L by blast
    qed
    with False Cons.IH show ?thesis by simp
  qed
qed

text \<open>
  Claim C5. For a named target port, \<open>resolveTargetPort\<close> scans the pod's ports in order
  and returns the container port of the first entry whose name is equal to the wanted name
  (names are compared as byte strings, so the comparison is exact and case-sensitive). It
  fails, with the named-port-not-found error, if and only if no entry has that name.
\<close>

theorem resolveTargetPort_named:
  assumes "Type ts = intstr_String"
  shows "(resolveTargetPort (Some ts) servicePort pod = Inr c \<longleftrightarrow>
            (\<exists>pre p post. Pod_Ports pod = pre @ p # post \<and>
               (\<forall>q\<in>set pre. PodPort_Name q \<noteq> StrVal ts) \<and>
               PodPort_Name p = StrVal ts \<and> c = ContainerPort p)) \<and>
         (resolveTargetPort (Some ts) servicePort pod =
            Inl (NamedPortNotFound (StrVal ts) (Pod_Name pod) (Pod_Namespace pod)) \<longleftrightarrow>
            (\<forall>q\<in>set (Pod_Ports pod). PodPort_Name q \<noteq> StrVal ts)) \<and>
         ((\<exists>e. resolveTargetPort (Some ts) servicePort pod = Inl e) \<longleftrightarrow>
            (\<forall>q\<in>set (Pod_Ports pod). PodPort_Name q \<noteq> StrVal ts))"
proof -
  have r: "resolveTargetPort (Some ts) servicePort pod =
      (case findNamedPort (StrVal ts) (Pod_Ports pod) of
         Some p \<Rightarrow> Inr p
       | None \<Rightarrow> Inl (NamedPortNotFound (StrVal ts) (Pod_Name pod) (Pod_Namespace pod)))"
    using assms by (simp add: resolveTargetPort_def intstr_Int_def intstr_String_def)
  have a: "resolveTargetPort (Some ts) servicePort pod = Inr c \<longleftrightarrow>
      findNamedPort (StrVal ts) (Pod_Ports pod) = Some c"
    unfolding r by (simp split: option.split)
  have b: "(\<exists>e. resolveTargetPort (Some ts) servicePort pod = Inl e) \<longleftrightarrow>
      findNamedPort (StrVal ts) (Pod_Ports pod) = None"
    unfolding r by (simp split: option.split)
  have c: "resolveTargetPort (Some ts) servicePort pod =
      Inl (NamedPortNotFound (StrVal ts) (Pod_Name pod) (Pod_Namespace pod)) \<longleftrightarrow>
      findNamedPort (StrVal ts) (Pod_Ports pod) = None"
    unfolding r by (simp split: option.split)
  show ?thesis
    unfolding a b c findNamedPort_None_iff findNamedPort_Some_iff by simp
qed

theorem resolveTargetPort_named_witness:
  "resolveTargetPort (Some \<lparr>Type = intstr_String, IntVal = 0, StrVal = ''http''\<rparr>) 80 examplePod
     = Inr 8080 \<and>
   resolveTargetPort (Some \<lparr>Type = intstr_String, IntVal = 0, StrVal = ''HTTP''\<rparr>) 80 examplePod
     = Inl (NamedPortNotFound ''HTTP'' ''web-0'' ''default'')"
proof -
  let ?m = "\<lparr>PodPort_Name = ''metrics'', ContainerPort = 9100, Protocol = ''TCP'',
        ContainerName = ''app'', IsInitContainer = False\<rparr>"
  let ?h = "\<lparr>PodPort_Name = ''http'', ContainerPort = 8080, Protocol = ''TCP'',
        ContainerName = ''app'', IsInitContainer = False\<rparr>"
  let ?s = "\<lparr>PodPort_Name = ''http'', ContainerPort = 9090, Protocol = ''TCP'',
        ContainerName = ''sidecar'', IsInitContainer = False\<rparr>"
  have "Pod_Ports examplePod = [?m] @ ?h # [?s] \<and>
      (\<forall>q\<in>set [?m]. PodPort_Name q \<noteq> ''http'') \<and> PodPort_Name ?h = ''http'' \<and>
      (8080::int32) = ContainerPort ?h"
    by (simp add: examplePod_def)
  then have ex: "\<exists>pre p post. Pod_Ports examplePod = pre @ p # post \<and>
      (\<forall>q\<in>set pre. PodPort_Name q \<noteq> ''http'') \<and> PodPort_Name p = ''http'' \<and>
      (8080::int32) = ContainerPort p"
    by blast
  have no: "\<forall>q\<in>set (Pod_Ports examplePod). PodPort_Name q \<noteq> ''HTTP''"
    by (simp add: examplePod_def)
  have t1: "Type \<lparr>Type = intstr_String, IntVal = 0, StrVal = ''http''\<rparr> = intstr_String" by simp
  have t2: "Type \<lparr>Type = intstr_String, IntVal = 0, StrVal = ''HTTP''\<rparr> = intstr_String" by simp
  from resolveTargetPort_named [OF t1, of 80 examplePod 8080] ex
  have "resolveTargetPort (Some \<lparr>Type = intstr_String, IntVal = 0, StrVal = ''http''\<rparr>) 80 examplePod
     = Inr 8080" by simp
  moreover from resolveTargetPort_named [OF t2, of 80 examplePod 0] no
  have "resolveTargetPort (Some \<lparr>Type = intstr_String, IntVal = 0, StrVal = ''HTTP''\<rparr>) 80 examplePod
     = Inl (NamedPortNotFound ''HTTP'' ''web-0'' ''default'')" by (simp add: examplePod_def)
  ultimately show ?thesis by simp
qed

text \<open>
  Claim C6. With a nil target port specification, or a numeric one equal to 0,
  \<open>resolveTargetPort\<close> returns the service (exposed) port whatever the pod is; with a
  numeric one different from 0 it returns that number. None of these cases fails, and the
  pod is never consulted.
\<close>

theorem resolveTargetPort_numeric:
  "resolveTargetPort None servicePort pod = Inr servicePort \<and>
   (Type ts = intstr_Int \<and> IntVal ts = 0 \<longrightarrow>
      resolveTargetPort (Some ts) servicePort pod = Inr servicePort) \<and>
   (Type ts = intstr_Int \<and> IntVal ts \<noteq> 0 \<longrightarrow>
      resolveTargetPort (Some ts) servicePort pod = Inr (IntVal ts)) \<and>
   (Type ts = intstr_Int \<longrightarrow>
      resolveTargetPort (Some ts) servicePort pod = resolveTargetPort (Some ts) servicePort pod' \<and>
      (\<forall>e. resolveTargetPort (Some ts) servicePort pod \<noteq> Inl e)) \<and>
   resolveTargetPort None servicePort pod = resolveTargetPort None servicePort pod'"
  by (simp add: resolveTargetPort_def)

theorem resolveTargetPort_numeric_witness:
  "resolveTargetPort None 80 examplePod = Inr 80 \<and>
   resolveTargetPort (Some \<lparr>Type = intstr_Int, IntVal = 0, StrVal = ''''\<rparr>) 80 examplePod = Inr 80 \<and>
   resolveTargetPort (Some \<lparr>Type = intstr_Int, IntVal = 8443, StrVal = ''''\<rparr>) 80 examplePod
     = Inr 8443"
  using resolveTargetPort_numeric [of 80 examplePod "\<lparr>Type = intstr_Int, IntVal = 0, StrVal = ''''\<rparr>" examplePod]
    resolveTargetPort_numeric [of 80 examplePod "\<lparr>Type = intstr_Int, IntVal = 8443, StrVal = ''''\<rparr>" examplePod]
  by simp

section \<open>PortAllocator: properties\<close>

text \<open>
  Claim C9. \<open>ReleasePort\<close> cannot fail (it returns nothing but the table). Releasing a
  port that is not in the table leaves the table as it is; releasing twice is the same as
  releasing once; after a release the port is no longer held; and every other entry is what
  it was before.
\<close>

theorem ReleasePort_idempotent:
  "(allocatedPorts pa port = None \<longrightarrow> ReleasePort pa port = pa) \<and>
   ReleasePort (ReleasePort pa port) port = ReleasePort pa port \<and>
   allocatedPorts (ReleasePort pa port) port = None \<and>
   \<not> lookupPort (ReleasePort pa port) port \<and>
   (\<forall>other. other \<noteq> port \<longrightarrow>
      allocatedPorts (ReleasePort pa port) other = allocatedPorts pa other \<and>
      lookupPort (ReleasePort pa port) other = lookupPort pa other)"
proof -
  have "allocatedPorts pa port = None \<Longrightarrow> (allocatedPorts pa)(port := None) = allocatedPorts pa"
    by (rule ext) simp
  then show ?thesis
    by (simp add: ReleasePort_def lookupPort_def)
qed

theorem ReleasePort_idempotent_witness:
  "ReleasePort NewPortAllocator 8080 = NewPortAllocator \<and>
   ReleasePort (ReleasePort exampleTable 8080) 8080 = ReleasePort exampleTable 8080 \<and>
   \<not> lookupPort (ReleasePort exampleTable 8080) 8080 \<and>
   lookupPort (ReleasePort exampleTable 8080) 9090"
proof -
  have a: "allocatedPorts NewPortAllocator 8080 = None"
    by (simp add: NewPortAllocator_def)
  have b: "lookupPort exampleTable 9090"
    by (simp add: exampleTable_def lookupPort_def)
  have c: "(9090::int32) \<noteq> 8080" by simp
  from ReleasePort_idempotent [of NewPortAllocator 8080] a
  have "ReleasePort NewPortAllocator 8080 = NewPortAllocator" by blast
  moreover from ReleasePort_idempotent [of exampleTable 8080] b c
  have "ReleasePort (ReleasePort exampleTable 8080) 8080 = ReleasePort exampleTable 8080 \<and>
   \<not> lookupPort (ReleasePort exampleTable 8080) 8080 \<and>
   lookupPort (ReleasePort exampleTable 8080) 9090" by blast
  ultimately show ?thesis by blast
qed

text \<open>
  Claim C8. For a requested port \<open>P > 0\<close>: when the table already holds \<open>P\<close>,
  \<open>AllocatePort\<close> fails with the already-allocated error without touching the operating
  system or the table, whatever a bind to \<open>P\<close> would have answered; when the table does
  not hold \<open>P\<close> and the test bind fails, it fails with the port-unavailable error and the
  table is unchanged; when the test bind succeeds, \<open>P\<close> is recorded in the table and
  returned.
\<close>

theorem AllocatePort_specific:
  assumes "0 <s P"
  shows "(lookupPort pa P \<longrightarrow>
            AllocatePort w pa P = (Inl (PortAlreadyAllocated P), w, pa)) \<and>
         (\<not> lookupPort pa P \<and> listen w (length (events w)) P = None \<longrightarrow>
            AllocatePort w pa P =
              (Inl (PortUnavailable P), w\<lparr>events := events w @ [Listen P]\<rparr>, pa)) \<and>
         (\<not> lookupPort pa P \<and> listen w (length (events w)) P \<noteq> None \<longrightarrow>
            AllocatePort w pa P =
              (Inr P, w\<lparr>events := events w @ [Listen P]\<rparr>,
               pa\<lparr>allocatedPorts := (allocatedPorts pa)(P \<mapsto> True)\<rparr>) \<and>
            lookupPort (snd (snd (AllocatePort w pa P))) P)"
  using assms
  by (auto simp: AllocatePort_def reserveSpecificPort_def netListen_def lookupPort_def)

theorem AllocatePort_specific_witness:
  "AllocatePort freeWorld exampleTable 8080 = (Inl (PortAlreadyAllocated 8080), freeWorld, exampleTable) \<and>
   fst (IsPortAvailable freeWorld 8080) \<and>
   AllocatePort busyWorld NewPortAllocator 8080 =
     (Inl (PortUnavailable 8080), busyWorld\<lparr>events := [Listen 8080]\<rparr>, NewPortAllocator) \<and>
   AllocatePort freeWorld NewPortAllocator 8080 =
     (Inr 8080, freeWorld\<lparr>events := [Listen 8080]\<rparr>, \<lparr>allocatedPorts = [8080 \<mapsto> True]\<rparr>)"
proof -
  have pos: "0 <s (8080::int32)" by (simp add: word_sless_alt)
  have h1: "lookupPort exampleTable 8080" by (simp add: exampleTable_def lookupPort_def)
  have h2: "\<not> lookupPort NewPortAllocator 8080" by (simp add: NewPortAllocator_def lookupPort_def)
  have h3: "listen busyWorld (length (events busyWorld)) 8080 = None" by (simp add: busyWorld_def)
  have h4: "listen freeWorld (length (events freeWorld)) 8080 \<noteq> None" by (simp add: freeWorld_def)
  have e1: "events busyWorld = []" by (simp add: busyWorld_def)
  have e2: "events freeWorld = []" by (simp add: freeWorld_def)
  have p: "fst (IsPortAvailable freeWorld 8080)"
    by (simp add: IsPortAvailable_def netListen_def freeWorld_def)
  from AllocatePort_specific [OF pos, of exampleTable freeWorld] h1
  have "AllocatePort freeWorld exampleTable 8080 = (Inl (PortAlreadyAllocated 8080), freeWorld, exampleTable)"
    by blast
  moreover from AllocatePort_specific [OF pos, of NewPortAllocator busyWorld] h2 h3
  have "AllocatePort busyWorld NewPortAllocator 8080 =
     (Inl (PortUnavailable 8080), busyWorld\<lparr>events := [Listen 8080]\<rparr>, NewPortAllocator)"
    by (simp add: e1)
  moreover from AllocatePort_specific [OF pos, of NewPortAllocator freeWorld] h2 h4
  have "AllocatePort freeWorld NewPortAllocator 8080 =
     (Inr 8080, freeWorld\<lparr>events := [Listen 8080]\<rparr>, \<lparr>allocatedPorts = [8080 \<mapsto> True]\<rparr>)"
    by (simp add: e2 NewPortAllocator_def)
  ultimately show ?thesis using p by blast
qed

section \<open>ForwardSession: retry and backoff\<close>

lemma nextBackoff_min:
  "nextBackoff (min MaxBackoff (InitialBackoff * 2 ^ k)) = min MaxBackoff (InitialBackoff * 2 ^ Suc k)"
proof -
  have pos: "(0::int) < 2 ^ k" by simp
  show ?thesis using pos
    by (simp add: nextBackoff_def MaxBackoff_def InitialBackoff_def BackoffFactor_def Second_def
        Let_def min_def)
qed

lemma nextBackoff_funpow:
  "(nextBackoff ^^ k) InitialBackoff = min MaxBackoff (InitialBackoff * 2 ^ k)"
proof (induction k)
  case 0
  show ?case by (simp add: MaxBackoff_def InitialBackoff_def Second_def)
next
  case (Suc k)
  then show ?case by (simp add: nextBackoff_min del: power_Suc)
qed

text \<open>
  Claim C4. A session with auto-retry enabled whose tunnel provider fails at every attempt
  (every \<open>ForwardPorts\<close> returns an error, while \<open>portforward.New\<close> succeeds), and which
  nobody stops, retries exactly 5 times: it waits 1s, 2s, 4s, 8s and 16s, which
  is \<open>min(30s, 1s * 2^retryCount)\<close> for \<open>retryCount = 0, ..., 4\<close> (and the backoff the
  loop would compute after any number of doublings obeys that formula); when the attempt
  after the 5th retry fails too it sends the terminal error (failed after 6 attempts) on its
  error channel and closes its stop channel, \<open>RetryAttempts\<close> being 5.
\<close>

theorem forwardGoroutine_retries:
  assumes "AutoRetry fw" and "StopChannel fw = Open"
    and "\<forall>k. newOK pr k" and "\<forall>k. forwardFails pr k"
    and "\<forall>k. \<not> stopAtCheck pr k" and "\<forall>k. \<not> stopDuringWait pr k"
  shows "forwardGoroutine pr fw =
           (GaveUp,
            fw\<lparr>RetryAttempts := 5,
               ErrorChannel := ErrorChannel fw @ [ForwardingFailedAfter 6],
               StopChannel := Closed\<rparr>,
            [1 * Second, 2 * Second, 4 * Second, 8 * Second, 16 * Second]) \<and>
         [1 * Second, 2 * Second, 4 * Second, 8 * Second, 16 * Second] =
           map (\<lambda>retryCount. min (30 * Second) (1 * Second * 2 ^ retryCount)) [0..<MaxRetries] \<and>
         (\<forall>retryCount. (nextBackoff ^^ retryCount) InitialBackoff =
            min (30 * Second) (1 * Second * 2 ^ retryCount))"
proof -
  have run: "forwardGoroutine pr fw =
           (GaveUp,
            fw\<lparr>RetryAttempts := 5,
               ErrorChannel := ErrorChannel fw @ [ForwardingFailedAfter 6],
               StopChannel := Closed\<rparr>,
            [1 * Second, 2 * Second, 4 * Second, 8 * Second, 16 * Second])"
    using assms
    by (simp add: forwardGoroutine_def forwardLoop.simps sendErrorAndClose_def closeChan_def
        nextBackoff_def MaxRetries_def InitialBackoff_def MaxBackoff_def BackoffFactor_def
        Second_def Let_def)
  have upt: "[0..<MaxRetries] = [0, 1, 2, 3, 4]"
    by (simp add: MaxRetries_def upt_rec)
  have tab: "[1 * Second, 2 * Second, 4 * Second, 8 * Second, 16 * Second] =
           map (\<lambda>retryCount. min (30 * Second) (1 * Second * 2 ^ retryCount)) [0..<MaxRetries]"
    unfolding upt by (simp add: Second_def)
  have gen: "\<forall>retryCount. (nextBackoff ^^ retryCount) InitialBackoff =
            min (30 * Second) (1 * Second * 2 ^ retryCount)"
    using nextBackoff_funpow by (simp add: MaxBackoff_def InitialBackoff_def)
  from run tab gen show ?thesis by blast
qed

theorem forwardGoroutine_retries_witness:
  "forwardGoroutine alwaysFailing freshForwarder =
     (GaveUp,
      freshForwarder\<lparr>RetryAttempts := 5, ErrorChannel := [ForwardingFailedAfter 6],
                      StopChannel := Closed\<rparr>,
      [1000000000, 2000000000, 4000000000, 8000000000, 16000000000])"
proof -
  have a: "AutoRetry freshForwarder" "StopChannel freshForwarder = Open"
    by (simp_all add: freshForwarder_def)
  have b: "\<forall>k. newOK alwaysFailing k" "\<forall>k. forwardFails alwaysFailing k"
    "\<forall>k. \<not> stopAtCheck alwaysFailing k" "\<forall>k. \<not> stopDuringWait alwaysFailing k"
    by (simp_all add: alwaysFailing_def)
  have e: "ErrorChannel freshForwarder = []" by (simp add: freshForwarder_def)
  from forwardGoroutine_retries [OF a b] show ?thesis
    by (simp add: e Second_def)
qed

lemma forwardLoop_GaveUp:
  "AutoRetry fw \<Longrightarrow> retryCount \<le> MaxRetries \<Longrightarrow> length waits = retryCount \<Longrightarrow>
   forwardLoop pr fw retryCount backoff waits = (GaveUp, fw', waits') \<Longrightarrow>
   ErrorChannel fw' = ErrorChannel fw @ [ForwardingFailedAfter (MaxRetries + 1)] \<and>
   length waits' = MaxRetries"
proof (induction pr fw retryCount backoff waits rule: forwardLoop.induct)
  case (1 pr fw retryCount backoff waits)
  show ?case
  proof (cases "StopChannel fw = Closed \<or> stopAtCheck pr retryCount \<or> \<not> forwardFails pr retryCount")
    case True
    with "1.prems"(4) show ?thesis
      by (subst (asm) forwardLoop.simps) (auto split: if_splits)
  next
    case nostop: False
    show ?thesis
    proof (cases "retryCount \<ge> MaxRetries")
      case True
      with "1.prems" nostop have rc: "retryCount = MaxRetries" by simp
      from "1.prems"(3) rc have len: "length waits = MaxRetries" by simp
      from "1.prems"(4) nostop True "1.prems"(1) len show ?thesis
        by (subst (asm) forwardLoop.simps)
          (auto simp: sendErrorAndClose_def closeChan_def Let_def rc
            split: if_splits chan.splits)
    next
      case False
      show ?thesis
      proof (cases "stopDuringWait pr retryCount \<or> \<not> newOK pr (retryCount + 1)")
        case True
        with "1.prems"(4) nostop False "1.prems"(1) show ?thesis
          by (subst (asm) forwardLoop.simps)
            (auto simp: sendErrorAndClose_def closeChan_def Let_def split: if_splits chan.splits)
      next
        case cont: False
        from "1.prems"(4) nostop False "1.prems"(1) cont
        have rec: "forwardLoop pr (fw\<lparr>RetryAttempts := retryCount + 1\<rparr>) (retryCount + 1)
            (nextBackoff backoff) (waits @ [backoff]) = (GaveUp, fw', waits')"
          by (subst (asm) forwardLoop.simps) simp
        have "ErrorChannel fw' =
            ErrorChannel (fw\<lparr>RetryAttempts := retryCount + 1\<rparr>) @
              [ForwardingFailedAfter (MaxRetries + 1)] \<and> length waits' = MaxRetries"
        proof (rule "1.IH")
          show "\<not> (StopChannel fw = Closed \<or> stopAtCheck pr retryCount)" using nostop by simp
          show "\<not> \<not> forwardFails pr retryCount" using nostop by simp
          show "\<not> (\<not> AutoRetry fw \<or> MaxRetries \<le> retryCount)" using False "1.prems"(1) by simp
          show "\<not> stopDuringWait pr retryCount" using cont by simp
          show "\<not> \<not> newOK pr (retryCount + 1)" using cont by simp
          show "AutoRetry (fw\<lparr>RetryAttempts := retryCount + 1\<rparr>)" using "1.prems"(1) by simp
          show "retryCount + 1 \<le> MaxRetries" using False by simp
          show "length (waits @ [backoff]) = retryCount + 1" using "1.prems"(3) by simp
          show "forwardLoop pr (fw\<lparr>RetryAttempts := retryCount + 1\<rparr>) (retryCount + 1)
            (nextBackoff backoff) (waits @ [backoff]) = (GaveUp, fw', waits')" by (rule rec)
        qed
        then show ?thesis by simp
      qed
    qed
  qed
qed

lemma StartPortForward_fields:
  "StartPortForward w req = (Inr fw, w') \<Longrightarrow>
   AutoRetry fw \<and> StopChannel fw = Open \<and> ErrorChannel fw = [] \<and> RetryAttempts fw = 0 \<and>
   Resource fw = req_Resource req \<and> LocalPort fw = req_LocalPort req \<and>
   RemotePort fw = req_RemotePort req"
  by (auto simp: StartPortForward_def spdyRoundTripperFor_def Let_def AutoRetryEnable_def
      split: if_splits bool.splits prod.splits)

text \<open>
  Claim C10. Whatever the request's \<open>AutoRetry\<close> field is, a forwarder that
  \<open>StartPortForward\<close> returns has \<open>AutoRetry = true\<close>. So whenever its goroutine gives
  up on a failed attempt, it does so with the retries exhausted (after \<open>MaxRetries\<close>
  backoff waits, reporting \<open>MaxRetries + 1\<close> attempts), never because auto-retry is off.
\<close>

theorem StartPortForward_AutoRetry:
  assumes "StartPortForward w req = (Inr fw, w')"
  shows "AutoRetry fw \<and>
         (\<forall>pr fw' waits. forwardGoroutine pr fw = (GaveUp, fw', waits) \<longrightarrow>
            ErrorChannel fw' = [ForwardingFailedAfter (MaxRetries + 1)] \<and>
            length waits = MaxRetries)"
proof -
  from StartPortForward_fields [OF assms]
  have ar: "AutoRetry fw" and ec: "ErrorChannel fw = []" by simp_all
  have "ErrorChannel fw' = [ForwardingFailedAfter (MaxRetries + 1)] \<and> length waits = MaxRetries"
    if g: "forwardGoroutine pr fw = (GaveUp, fw', waits)" for pr fw' waits
  proof -
    from g have l: "forwardLoop pr fw 0 InitialBackoff [] = (GaveUp, fw', waits)"
      by (auto simp: forwardGoroutine_def sendErrorAndClose_def closeChan_def Let_def
          split: if_splits chan.splits)
    from forwardLoop_GaveUp [OF ar _ _ l] ec show ?thesis by simp
  qed
  with ar show ?thesis by blast
qed

theorem StartPortForward_AutoRetry_witness:
  "StartPortForward freeWorld (podRequest False) =
     (Inr freshForwarder, freeWorld\<lparr>events := [RoundTripperFor]\<rparr>) \<and>
   \<not> req_AutoRetry (podRequest False) \<and> AutoRetry freshForwarder"
proof -
  have s: "StartPortForward freeWorld (podRequest False) =
     (Inr freshForwarder, freeWorld\<lparr>events := [RoundTripperFor]\<rparr>)"
    by (simp add: StartPortForward_def podRequest_def freshForwarder_def freeWorld_def
        spdyRoundTripperFor_def ResourceType_defs AutoRetryEnable_def)
  from StartPortForward_AutoRetry [OF s] s show ?thesis
    by (simp add: podRequest_def)
qed

section \<open>Stopping sessions\<close>

text \<open>
  Claim C2 on the code. The claim asks that \<open>Stop\<close> on a session that is already stopped
  be a no-op and that \<open>Manager.Stop\<close> be idempotent. The code does neither. A session
  whose goroutine has given up has closed its own stop channel and stays in the manager's
  list; a single \<open>Manager.Stop\<close> then closes that channel again, which panics at the first
  such forwarder: the manager is left as it was, the live session behind it is not stopped
  and its local port is still held. Likewise a second \<open>Stop\<close> on a session panics, and so
  does a second \<open>Manager.Stop\<close> after a first one that succeeded.
\<close>

theorem Manager_Stop_panics_on_stopped_session:
  "fst (snd (forwardGoroutine alwaysFailing freshForwarder)) = gaveUpForwarder \<and>
   Manager_Stop twoSessionManager = (Some PanicCloseOfClosedChannel, twoSessionManager) \<and>
   map StopChannel (Forwarders (snd (Manager_Stop twoSessionManager))) = [Closed, Open] \<and>
   lookupPort (PortAllocator (snd (Manager_Stop twoSessionManager))) 9091 \<and>
   Stop freshForwarder = Inr (freshForwarder\<lparr>StopChannel := Closed\<rparr>) \<and>
   Stop (freshForwarder\<lparr>StopChannel := Closed\<rparr>) = Inl PanicCloseOfClosedChannel \<and>
   Manager_Stop onePortManager =
     (None, \<lparr>Forwarders = [freshForwarder\<lparr>StopChannel := Closed\<rparr>],
             PortAllocator = NewPortAllocator\<rparr>) \<and>
   Manager_Stop \<lparr>Forwarders = [freshForwarder\<lparr>StopChannel := Closed\<rparr>],
                 PortAllocator = NewPortAllocator\<rparr> =
     (Some PanicCloseOfClosedChannel,
      \<lparr>Forwarders = [freshForwarder\<lparr>StopChannel := Closed\<rparr>],
       PortAllocator = NewPortAllocator\<rparr>)"
proof -
  have run: "fst (snd (forwardGoroutine alwaysFailing freshForwarder)) = gaveUpForwarder"
    by (simp add: forwardGoroutine_def forwardLoop.simps sendErrorAndClose_def closeChan_def
        nextBackoff_def MaxRetries_def InitialBackoff_def MaxBackoff_def BackoffFactor_def
        Second_def Let_def alwaysFailing_def freshForwarder_def gaveUpForwarder_def)
  have stop: "Manager_Stop twoSessionManager = (Some PanicCloseOfClosedChannel, twoSessionManager)"
    by (simp add: Manager_Stop_def twoSessionManager_def gaveUpForwarder_def Stop_def
        closeChan_def)
  have left: "map StopChannel (Forwarders twoSessionManager) = [Closed, Open]"
    "lookupPort (PortAllocator twoSessionManager) 9091"
    by (simp_all add: twoSessionManager_def gaveUpForwarder_def otherForwarder_def
        freshForwarder_def lookupPort_def)
  have twice: "Stop freshForwarder = Inr (freshForwarder\<lparr>StopChannel := Closed\<rparr>) \<and>
   Stop (freshForwarder\<lparr>StopChannel := Closed\<rparr>) = Inl PanicCloseOfClosedChannel \<and>
   Manager_Stop onePortManager =
     (None, \<lparr>Forwarders = [freshForwarder\<lparr>StopChannel := Closed\<rparr>],
             PortAllocator = NewPortAllocator\<rparr>) \<and>
   Manager_Stop \<lparr>Forwarders = [freshForwarder\<lparr>StopChannel := Closed\<rparr>],
                 PortAllocator = NewPortAllocator\<rparr> =
     (Some PanicCloseOfClosedChannel,
      \<lparr>Forwarders = [freshForwarder\<lparr>StopChannel := Closed\<rparr>],
       PortAllocator = NewPortAllocator\<rparr>)"
    by (simp add: Stop_def closeChan_def freshForwarder_def Manager_Stop_def onePortManager_def
        ReleasePort_def NewPortAllocator_def)
  from run stop left twice show ?thesis by simp
qed

section \<open>Deployments and stateful sets: the remote port by position\<close>

lemma stopResourceForwarders_loop_err:
  "stopResourceForwarders_loop r fws pa = (Some e, fws', pa') \<Longrightarrow> e = PanicCloseOfClosedChannel"
proof (induction fws arbitrary: pa fws' pa')
  case Nil
  then show ?case by simp
next
  case (Cons fw fws)
  then show ?case
    by (auto simp: Stop_def closeChan_def split: if_splits chan.splits prod.splits)
qed

lemma stopResourceForwarders_err:
  "stopResourceForwarders m r = (Some e, m') \<Longrightarrow> e = PanicCloseOfClosedChannel"
  by (auto simp: stopResourceForwarders_def split: prod.splits dest: stopResourceForwarders_loop_err)

lemma allocateLocalPort_err:
  "allocateLocalPort w pa lp s = (Inl e, w', pa') \<Longrightarrow>
   (\<exists>e'. e = AllocLocalFailed e') \<or> (\<exists>e'. e = AllocRequestedFailed lp e')"
  by (auto simp: allocateLocalPort_def split: if_splits prod.splits sum.splits)

lemma startAndRegister_ok:
  "startAndRegister w m r lp rp pn = (None, w', m') \<Longrightarrow>
   \<exists>fw. m' = m\<lparr>Forwarders := Forwarders m @ [fw]\<rparr> \<and> RemotePort fw = rp \<and> LocalPort fw = lp \<and>
        Resource fw = r \<and> StopChannel fw = Open \<and> AutoRetry fw"
  by (auto simp: startAndRegister_def Let_def split: prod.splits sum.splits option.splits
      dest!: StartPortForward_fields)

lemma startAndRegister_err:
  "startAndRegister w m r lp rp pn = (Some e, w', m') \<Longrightarrow>
   e = PanicCloseOfClosedChannel \<or> (\<exists>e'. e = StartFailed (Name r) pn e')"
  by (auto simp: startAndRegister_def Let_def split: prod.splits sum.splits option.splits
      dest: stopResourceForwarders_err)

lemma allocateAndStart_ok:
  "allocateAndStart w m r lp rp pn = (None, w', m') \<Longrightarrow>
   \<exists>fw. Forwarders m' = Forwarders m @ [fw] \<and> RemotePort fw = rp \<and> Resource fw = r \<and>
        StopChannel fw = Open"
  by (auto simp: allocateAndStart_def split: prod.splits sum.splits dest!: startAndRegister_ok)

lemma allocateAndStart_err:
  "allocateAndStart w m r lp rp pn = (Some e, w', m') \<Longrightarrow>
   e = PanicCloseOfClosedChannel \<or> (\<exists>e'. e = StartFailed (Name r) pn e') \<or>
   (\<exists>e'. e = AllocLocalFailed e') \<or> (\<exists>e'. e = AllocRequestedFailed lp e')"
  by (auto simp: allocateAndStart_def split: prod.splits sum.splits
      dest: startAndRegister_err allocateLocalPort_err)

lemma allocateAndStart_not_NoPortsOnPod:
  "fst (allocateAndStart w m r lp rp pn) \<noteq> Some (NoPortsOnPod a b c)"
proof
  assume h: "fst (allocateAndStart w m r lp rp pn) = Some (NoPortsOnPod a b c)"
  obtain w' m' where "allocateAndStart w m r lp rp pn = (Some (NoPortsOnPod a b c), w', m')"
    using h by (cases "allocateAndStart w m r lp rp pn") auto
  from allocateAndStart_err [OF this] show False by auto
qed

lemma podPortAt_cases:
  "podPortAt i pod =
     (if Pod_Ports pod = [] then None
      else Some (ContainerPort (Pod_Ports pod ! (if i < length (Pod_Ports pod) then i else 0))))"
  by (simp add: podPortAt_def)

lemma forwardDeploymentPort_unfold:
  assumes "getPods w (length (events w)) DeploymentResource (Name resource) = Some (pod # others)"
  shows "forwardDeploymentPort w m resource i localPort pv =
     (case podPortAt i pod of
        None \<Rightarrow> (Some (NoPortsOnPod (Pod_Name pod) DeploymentResource (Name resource)),
                 w\<lparr>events := events w @ [GetPods DeploymentResource (Name resource)]\<rparr>, m)
      | Some podPort \<Rightarrow>
          allocateAndStart (w\<lparr>events := events w @ [GetPods DeploymentResource (Name resource)]\<rparr>)
            m resource localPort podPort (Pod_Name pod))"
  using assms by (simp add: forwardDeploymentPort_def k8sGetPods_def)

lemma forwardStatefulSetPort_unfold:
  assumes "getPods w (length (events w)) StatefulSetResource (Name resource) = Some (pod # others)"
  shows "forwardStatefulSetPort w m resource i localPort pv =
     (case podPortAt i pod of
        None \<Rightarrow> (Some (NoPortsOnPod (Pod_Name pod) StatefulSetResource (Name resource)),
                 w\<lparr>events := events w @ [GetPods StatefulSetResource (Name resource)]\<rparr>, m)
      | Some podPort \<Rightarrow>
          allocateAndStart (w\<lparr>events := events w @ [GetPods StatefulSetResource (Name resource)]\<rparr>)
            m resource localPort podPort (Pod_Name pod))"
  using assms by (simp add: forwardStatefulSetPort_def k8sGetPods_def)

text \<open>
  Claim C7. For a deployment or a stateful set whose first backing pod is \<open>pod\<close>, and a
  port index \<open>i\<close>: when \<open>i\<close> is in range the remote port is the container port of
  \<open>pod.Ports[i]\<close>; when \<open>i\<close> is out of range and the pod has a port, it is the container
  port of \<open>pod.Ports[0]\<close>; and the forwarding of that port fails with the
  no-container-ports error exactly when the pod has no ports. The remote port is the one the
  allocation and the session are started with, and the one of the forwarder registered on
  success.
\<close>

theorem workload_port_by_index:
  assumes pods: "getPods w (length (events w)) T (Name resource) = Some (pod # others)"
    and kind: "(T = DeploymentResource \<and> forwardPort = forwardDeploymentPort) \<or>
               (T = StatefulSetResource \<and> forwardPort = forwardStatefulSetPort)"
  shows "(i < length (Pod_Ports pod) \<longrightarrow>
            forwardPort w m resource i localPort portValue =
              allocateAndStart (w\<lparr>events := events w @ [GetPods T (Name resource)]\<rparr>) m resource
                localPort (ContainerPort (Pod_Ports pod ! i)) (Pod_Name pod)) \<and>
         (length (Pod_Ports pod) \<le> i \<and> Pod_Ports pod \<noteq> [] \<longrightarrow>
            forwardPort w m resource i localPort portValue =
              allocateAndStart (w\<lparr>events := events w @ [GetPods T (Name resource)]\<rparr>) m resource
                localPort (ContainerPort (Pod_Ports pod ! 0)) (Pod_Name pod)) \<and>
         (Pod_Ports pod = [] \<longrightarrow>
            forwardPort w m resource i localPort portValue =
              (Some (NoPortsOnPod (Pod_Name pod) T (Name resource)),
               w\<lparr>events := events w @ [GetPods T (Name resource)]\<rparr>, m)) \<and>
         ((\<exists>a b c. fst (forwardPort w m resource i localPort portValue) =
                      Some (NoPortsOnPod a b c)) \<longleftrightarrow> Pod_Ports pod = []) \<and>
         (fst (forwardPort w m resource i localPort portValue) = None \<longrightarrow>
            (\<exists>fw. Forwarders (snd (snd (forwardPort w m resource i localPort portValue))) =
                    Forwarders m @ [fw] \<and>
                  RemotePort fw =
                    ContainerPort
                      (Pod_Ports pod ! (if i < length (Pod_Ports pod) then i else 0))))"
proof -
  let ?w1 = "w\<lparr>events := events w @ [GetPods T (Name resource)]\<rparr>"
  let ?res = "forwardPort w m resource i localPort portValue"
  let ?port = "ContainerPort (Pod_Ports pod ! (if i < length (Pod_Ports pod) then i else 0))"
  have unfold: "?res =
     (case podPortAt i pod of
        None \<Rightarrow> (Some (NoPortsOnPod (Pod_Name pod) T (Name resource)), ?w1, m)
      | Some podPort \<Rightarrow> allocateAndStart ?w1 m resource localPort podPort (Pod_Name pod))"
    using kind pods forwardDeploymentPort_unfold forwardStatefulSetPort_unfold by blast
  have none: "?res = (Some (NoPortsOnPod (Pod_Name pod) T (Name resource)), ?w1, m)"
    if "Pod_Ports pod = []"
    using that by (simp add: unfold podPortAt_cases)
  have some: "?res = allocateAndStart ?w1 m resource localPort ?port (Pod_Name pod)"
    if "Pod_Ports pod \<noteq> []"
    using that by (simp add: unfold podPortAt_cases)
  have iff: "(\<exists>a b c. fst ?res = Some (NoPortsOnPod a b c)) \<longleftrightarrow> Pod_Ports pod = []"
  proof (cases "Pod_Ports pod = []")
    case True
    then show ?thesis by (simp add: none)
  next
    case False
    then show ?thesis by (simp add: some allocateAndStart_not_NoPortsOnPod)
  qed
  have ok: "\<exists>fw. Forwarders (snd (snd ?res)) = Forwarders m @ [fw] \<and> RemotePort fw = ?port"
    if s: "fst ?res = None"
  proof -
    have ne: "Pod_Ports pod \<noteq> []" using s none by auto
    from s some [OF ne]
    have "fst (allocateAndStart ?w1 m resource localPort ?port (Pod_Name pod)) = None" by simp
    then obtain w' m' where
      r: "allocateAndStart ?w1 m resource localPort ?port (Pod_Name pod) = (None, w', m')"
      by (metis prod.collapse)
    from allocateAndStart_ok [OF r] r some [OF ne] show ?thesis by auto
  qed
  have in_range: "?res = allocateAndStart ?w1 m resource localPort
      (ContainerPort (Pod_Ports pod ! i)) (Pod_Name pod)" if "i < length (Pod_Ports pod)"
  proof -
    from that have "Pod_Ports pod \<noteq> []" by auto
    from some [OF this] that show ?thesis by simp
  qed
  have out_range: "?res = allocateAndStart ?w1 m resource localPort
      (ContainerPort (Pod_Ports pod ! 0)) (Pod_Name pod)"
    if "length (Pod_Ports pod) \<le> i" "Pod_Ports pod \<noteq> []"
    using some [OF that(2)] that(1) by simp
  from in_range out_range none iff ok show ?thesis by blast
qed

theorem workload_port_by_index_witness:
  "map RemotePort (Forwarders (snd (snd
      (forwardDeploymentPort (clusterWorld [examplePod]) NewManager webDeployment 1 0 8080))))
     = [8080] \<and>
   map RemotePort (Forwarders (snd (snd
      (forwardDeploymentPort (clusterWorld [examplePod]) NewManager webDeployment 7 0 8080))))
     = [9100] \<and>
   fst (forwardStatefulSetPort (clusterWorld [barePod]) NewManager dbStatefulSet 0 0 5432)
     = Some (NoPortsOnPod ''db-0'' StatefulSetResource ''db'')"
proof -
  have p1: "getPods (clusterWorld [examplePod]) (length (events (clusterWorld [examplePod])))
      DeploymentResource (Name webDeployment) = Some (examplePod # [])"
    by (simp add: clusterWorld_def)
  have p2: "getPods (clusterWorld [barePod]) (length (events (clusterWorld [barePod])))
      StatefulSetResource (Name dbStatefulSet) = Some (barePod # [])"
    by (simp add: clusterWorld_def)
  have k1: "(DeploymentResource = DeploymentResource \<and> forwardDeploymentPort = forwardDeploymentPort) \<or>
      (DeploymentResource = StatefulSetResource \<and> forwardDeploymentPort = forwardStatefulSetPort)"
    by simp
  have k2: "(StatefulSetResource = DeploymentResource \<and> forwardStatefulSetPort = forwardDeploymentPort) \<or>
      (StatefulSetResource = StatefulSetResource \<and> forwardStatefulSetPort = forwardStatefulSetPort)"
    by simp
  have ev: "fst (forwardDeploymentPort (clusterWorld [examplePod]) NewManager webDeployment 1 0 8080) = None"
    "fst (forwardDeploymentPort (clusterWorld [examplePod]) NewManager webDeployment 7 0 8080) = None"
    by (simp_all add: forwardDeploymentPort_def k8sGetPods_def clusterWorld_def examplePod_def
        podPortAt_def allocateAndStart_def allocateLocalPort_def AllocatePort_def
        reserveSpecificPort_def lookupPort_def netListen_def NewManager_def NewPortAllocator_def
        startAndRegister_def StartPortForward_def spdyRoundTripperFor_def webDeployment_def
        ResourceType_defs AutoRetryEnable_def word_sless_alt Let_def)
  have "Forwarders NewManager = []" by (simp add: NewManager_def)
  with workload_port_by_index [OF p1 k1, of 1 NewManager 0 8080] ev(1)
  have a: "map RemotePort (Forwarders (snd (snd
      (forwardDeploymentPort (clusterWorld [examplePod]) NewManager webDeployment 1 0 8080)))) = [8080]"
    by (auto simp: examplePod_def)
  from \<open>Forwarders NewManager = []\<close> workload_port_by_index [OF p1 k1, of 7 NewManager 0 8080] ev(2)
  have b: "map RemotePort (Forwarders (snd (snd
      (forwardDeploymentPort (clusterWorld [examplePod]) NewManager webDeployment 7 0 8080)))) = [9100]"
    by (auto simp: examplePod_def)
  from workload_port_by_index [OF p2 k2, of 0 NewManager 0 5432]
  have c: "fst (forwardStatefulSetPort (clusterWorld [barePod]) NewManager dbStatefulSet 0 0 5432)
     = Some (NoPortsOnPod ''db-0'' StatefulSetResource ''db'')"
    by (simp add: barePod_def dbStatefulSet_def)
  from a b c show ?thesis by blast
qed

section \<open>SessionManager: local port allocation and rollback\<close>

lemma AllocatePort_zero:
  "AllocatePort w pa 0 =
     (case listen w (length (events w)) 0 of
        None \<Rightarrow> (Inl (EphemeralAllocFailed EphemeralBindFailed),
                 w\<lparr>events := events w @ [Listen 0]\<rparr>, pa)
      | Some port \<Rightarrow> (Inr port, w\<lparr>events := events w @ [Listen 0]\<rparr>,
                      pa\<lparr>allocatedPorts := (allocatedPorts pa)(port \<mapsto> True)\<rparr>))"
  by (simp add: AllocatePort_def findAvailableEphemeralPort_def netListen_def split: option.split)

lemma AllocatePort_positive_events:
  "0 <s P \<Longrightarrow> events (fst (snd (AllocatePort w pa P))) = events w \<or>
     events (fst (snd (AllocatePort w pa P))) = events w @ [Listen P]"
  by (auto simp: AllocatePort_def reserveSpecificPort_def netListen_def split: option.split)

lemma forwardServicePort_unfold:
  assumes "portIndex < length (TargetPortSpecs resource)"
    and "getPods w (length (events w)) ServiceResource (Name resource) = Some (pod # others)"
    and "resolveTargetPort (TargetPortSpecs resource ! portIndex) servicePort pod = Inr remotePort"
  shows "forwardServicePort w m resource portIndex localPort servicePort =
     allocateAndStart (w\<lparr>events := events w @ [GetPods ServiceResource (Name resource)]\<rparr>)
       m resource localPort remotePort (Pod_Name pod)"
  using assms by (simp add: forwardServicePort_def k8sGetPods_def)

text \<open>
  Claim C3, amended. The local port of the port at index \<open>i\<close> is the mapped port when the
  mapping has one, and 0 when it has none and the target is a service, a deployment or a
  stateful set. Every forwarding path allocates through the same step, with the resolved
  remote port as the suggestion. When the local port is 0, that step tries
  \<open>AllocatePort(suggested)\<close> and, on any failure, falls back exactly once to
  \<open>AllocatePort(0)\<close> (one ephemeral bind), giving up with an error if that fails too. When
  the local port is not 0, a failure of \<open>AllocatePort\<close> on it is returned at once, and for
  a positive port no ephemeral bind is attempted. A failed allocation step ends the
  forwarding of that port with its error.
\<close>

theorem local_port_fallback:
  "(portMapping i = Some mappedPort \<longrightarrow>
      localPortFor resource portMapping i portValue = mappedPort) \<and>
   (portMapping i = None \<and>
    (Resource_Type resource = ServiceResource \<or> Resource_Type resource = DeploymentResource \<or>
     Resource_Type resource = StatefulSetResource) \<longrightarrow>
      localPortFor resource portMapping i portValue = 0) \<and>
   (AllocatePort w pa suggestedPort = (Inr p, w', pa') \<longrightarrow>
      allocateLocalPort w pa 0 suggestedPort = (Inr p, w', pa')) \<and>
   (AllocatePort w pa suggestedPort = (Inl e, w', pa') \<longrightarrow>
      allocateLocalPort w pa 0 suggestedPort =
        (case AllocatePort w' pa' 0 of
           (Inr q, w'', pa'') \<Rightarrow> (Inr q, w'', pa'')
         | (Inl e', w'', pa'') \<Rightarrow> (Inl (AllocLocalFailed e'), w'', pa'')) \<and>
      events (fst (snd (allocateLocalPort w pa 0 suggestedPort))) = events w' @ [Listen 0]) \<and>
   (localPort \<noteq> 0 \<and> AllocatePort w pa localPort = (Inl e, w', pa') \<longrightarrow>
      allocateLocalPort w pa localPort suggestedPort =
        (Inl (AllocRequestedFailed localPort e), w', pa')) \<and>
   (0 <s localPort \<longrightarrow>
      Listen 0 \<notin> set (drop (length (events w))
        (events (fst (snd (allocateLocalPort w pa localPort suggestedPort)))))) \<and>
   (allocateLocalPort w (PortAllocator m) localPort remotePort = (Inl e, w', pa') \<longrightarrow>
      allocateAndStart w m resource localPort remotePort podName =
        (Some e, w', m\<lparr>PortAllocator := pa'\<rparr>)) \<and>
   forwardPodPort w m resource localPort portValue =
     allocateAndStart w m resource localPort portValue [] \<and>
   (i < length (TargetPortSpecs resource) \<and>
    getPods w (length (events w)) ServiceResource (Name resource) = Some (pod # others) \<and>
    resolveTargetPort (TargetPortSpecs resource ! i) portValue pod = Inr remotePort \<longrightarrow>
      forwardServicePort w m resource i localPort portValue =
        allocateAndStart (w\<lparr>events := events w @ [GetPods ServiceResource (Name resource)]\<rparr>)
          m resource localPort remotePort (Pod_Name pod)) \<and>
   (getPods w (length (events w)) DeploymentResource (Name resource) = Some (pod # others) \<and>
    podPortAt i pod = Some remotePort \<longrightarrow>
      forwardDeploymentPort w m resource i localPort portValue =
        allocateAndStart (w\<lparr>events := events w @ [GetPods DeploymentResource (Name resource)]\<rparr>)
          m resource localPort remotePort (Pod_Name pod)) \<and>
   (getPods w (length (events w)) StatefulSetResource (Name resource) = Some (pod # others) \<and>
    podPortAt i pod = Some remotePort \<longrightarrow>
      forwardStatefulSetPort w m resource i localPort portValue =
        allocateAndStart (w\<lparr>events := events w @ [GetPods StatefulSetResource (Name resource)]\<rparr>)
          m resource localPort remotePort (Pod_Name pod))"
proof -
  have a1: "localPortFor resource portMapping i portValue = mappedPort"
    if "portMapping i = Some mappedPort"
    using that by (simp add: localPortFor_def)
  have a2: "localPortFor resource portMapping i portValue = 0"
    if "portMapping i = None \<and>
    (Resource_Type resource = ServiceResource \<or> Resource_Type resource = DeploymentResource \<or>
     Resource_Type resource = StatefulSetResource)"
    using that by (auto simp: localPortFor_def)
  have b0: "allocateLocalPort w pa 0 suggestedPort = (Inr p, w', pa')"
    if "AllocatePort w pa suggestedPort = (Inr p, w', pa')"
    using that by (simp add: allocateLocalPort_def)
  have b1: "allocateLocalPort w pa 0 suggestedPort =
        (case AllocatePort w' pa' 0 of
           (Inr q, w'', pa'') \<Rightarrow> (Inr q, w'', pa'')
         | (Inl e', w'', pa'') \<Rightarrow> (Inl (AllocLocalFailed e'), w'', pa''))"
    if "AllocatePort w pa suggestedPort = (Inl e, w', pa')"
    using that by (simp add: allocateLocalPort_def split: prod.split sum.split)
  have b1e: "events (fst (snd (allocateLocalPort w pa 0 suggestedPort))) = events w' @ [Listen 0]"
    if h: "AllocatePort w pa suggestedPort = (Inl e, w', pa')"
    unfolding b1 [OF h] AllocatePort_zero by (simp split: option.split)
  have b2: "allocateLocalPort w pa localPort suggestedPort =
        (Inl (AllocRequestedFailed localPort e), w', pa')"
    if "localPort \<noteq> 0 \<and> AllocatePort w pa localPort = (Inl e, w', pa')"
    using that by (simp add: allocateLocalPort_def)
  have b3: "Listen 0 \<notin> set (drop (length (events w))
        (events (fst (snd (allocateLocalPort w pa localPort suggestedPort)))))"
    if pos: "0 <s localPort"
  proof -
    from pos have nz: "localPort \<noteq> 0" by auto
    have ev: "events (fst (snd (allocateLocalPort w pa localPort suggestedPort))) =
        events (fst (snd (AllocatePort w pa localPort)))"
      using nz by (simp add: allocateLocalPort_def split: prod.split sum.split)
    from AllocatePort_positive_events [OF pos, of w pa] nz show ?thesis
      unfolding ev by auto
  qed
  have c: "allocateAndStart w m resource localPort remotePort podName =
        (Some e, w', m\<lparr>PortAllocator := pa'\<rparr>)"
    if "allocateLocalPort w (PortAllocator m) localPort remotePort = (Inl e, w', pa')"
    using that by (simp add: allocateAndStart_def)
  have d: "forwardPodPort w m resource localPort portValue =
     allocateAndStart w m resource localPort portValue []"
    by (simp add: forwardPodPort_def)
  have s: "forwardServicePort w m resource i localPort portValue =
        allocateAndStart (w\<lparr>events := events w @ [GetPods ServiceResource (Name resource)]\<rparr>)
          m resource localPort remotePort (Pod_Name pod)"
    if "i < length (TargetPortSpecs resource) \<and>
    getPods w (length (events w)) ServiceResource (Name resource) = Some (pod # others) \<and>
    resolveTargetPort (TargetPortSpecs resource ! i) portValue pod = Inr remotePort"
    using that forwardServicePort_unfold by blast
  have dp: "forwardDeploymentPort w m resource i localPort portValue =
        allocateAndStart (w\<lparr>events := events w @ [GetPods DeploymentResource (Name resource)]\<rparr>)
          m resource localPort remotePort (Pod_Name pod)"
    if "getPods w (length (events w)) DeploymentResource (Name resource) = Some (pod # others) \<and>
    podPortAt i pod = Some remotePort"
    using that forwardDeploymentPort_unfold [of w resource pod others m i localPort portValue]
    by simp
  have sp: "forwardStatefulSetPort w m resource i localPort portValue =
        allocateAndStart (w\<lparr>events := events w @ [GetPods StatefulSetResource (Name resource)]\<rparr>)
          m resource localPort remotePort (Pod_Name pod)"
    if "getPods w (length (events w)) StatefulSetResource (Name resource) = Some (pod # others) \<and>
    podPortAt i pod = Some remotePort"
    using that forwardStatefulSetPort_unfold [of w resource pod others m i localPort portValue]
    by simp
  show ?thesis
    using a1 a2 b0 b1 b1e b2 b3 c d s dp sp by (intro conjI impI; (elim conjE)?; simp)
qed

lemmas eval_defs =
  ForwardResource_def localPortFor_def forwardServicePort_def forwardPodPort_def
  k8sGetPods_def resolveTargetPort_def intstr_Int_def intstr_String_def
  allocateAndStart_def allocateLocalPort_def AllocatePort_def reserveSpecificPort_def
  findAvailableEphemeralPort_def lookupPort_def netListen_def ReleasePort_def
  startAndRegister_def StartPortForward_def spdyRoundTripperFor_def
  stopResourceForwarders_def Stop_def closeChan_def
  NewManager_def NewPortAllocator_def ResourceType_defs AutoRetryEnable_def
  word_sless_alt Let_def

theorem local_port_fallback_witness:
  "allocateLocalPort freeWorld exampleTable 0 8080 =
     (Inr 40000, freeWorld\<lparr>events := [Listen 0]\<rparr>,
      \<lparr>allocatedPorts = [8080 \<mapsto> True, 9090 \<mapsto> True, 40000 \<mapsto> True]\<rparr>) \<and>
   allocateLocalPort freeWorld exampleTable 8080 8080 =
     (Inl (AllocRequestedFailed 8080 (PortAlreadyAllocated 8080)), freeWorld, exampleTable) \<and>
   map LocalPort (Forwarders (snd (snd
     (ForwardResource (clusterWorld [examplePod]) \<lparr>Forwarders = [], PortAllocator = exampleTable\<rparr>
        webService Map.empty)))) = [40001]"
proof -
  have f: "AllocatePort freeWorld exampleTable 8080 =
      (Inl (PortAlreadyAllocated 8080), freeWorld, exampleTable)"
    by (simp add: AllocatePort_def reserveSpecificPort_def lookupPort_def exampleTable_def
        word_sless_alt)
  have z: "AllocatePort freeWorld exampleTable 0 =
      (Inr 40000, freeWorld\<lparr>events := [Listen 0]\<rparr>,
       \<lparr>allocatedPorts = [8080 \<mapsto> True, 9090 \<mapsto> True, 40000 \<mapsto> True]\<rparr>)"
    by (simp add: AllocatePort_def findAvailableEphemeralPort_def netListen_def freeWorld_def
        exampleTable_def)
  have nz: "(8080::int32) \<noteq> 0" by simp
  note t = local_port_fallback [where w = freeWorld and pa = exampleTable
      and suggestedPort = 8080 and e = "PortAlreadyAllocated 8080" and w' = freeWorld
      and pa' = exampleTable and localPort = 8080]
  from t f z have a: "allocateLocalPort freeWorld exampleTable 0 8080 =
     (Inr 40000, freeWorld\<lparr>events := [Listen 0]\<rparr>,
      \<lparr>allocatedPorts = [8080 \<mapsto> True, 9090 \<mapsto> True, 40000 \<mapsto> True]\<rparr>)"
    by simp
  from t f nz have b: "allocateLocalPort freeWorld exampleTable 8080 8080 =
     (Inl (AllocRequestedFailed 8080 (PortAlreadyAllocated 8080)), freeWorld, exampleTable)"
    by blast
  have c: "map LocalPort (Forwarders (snd (snd
     (ForwardResource (clusterWorld [examplePod]) \<lparr>Forwarders = [], PortAllocator = exampleTable\<rparr>
        webService Map.empty)))) = [40001]"
    by (simp add: eval_defs clusterWorld_def examplePod_def webService_def exampleTable_def)
  from a b c show ?thesis by blast
qed

text \<open>
  Against claim C3 as stated: a service forwarded with an explicit local port 8080 that
  another process holds. \<open>AllocatePort(8080)\<close> fails with the port-unavailable error and
  \<open>ForwardResource\<close> returns that error after the single bind attempt, although an
  ephemeral allocation would have succeeded.
\<close>

theorem explicit_port_no_fallback:
  "ForwardResource (busyCluster [examplePod]) NewManager webService [0 \<mapsto> 8080] =
     (Some (AllocRequestedFailed 8080 (PortUnavailable 8080)),
      (busyCluster [examplePod])\<lparr>events := [GetPods ServiceResource ''web'', Listen 8080]\<rparr>,
      NewManager) \<and>
   fst (AllocatePort
         ((busyCluster [examplePod])\<lparr>events := [GetPods ServiceResource ''web'', Listen 8080]\<rparr>)
         NewPortAllocator 0) = Inr 40002"
  by (simp add: eval_defs busyCluster_def examplePod_def webService_def)

text \<open>
  Claim C1 on the code. A service with two ports, both mapped to local port 8080: the
  second port's allocation fails (already allocated) and \<open>ForwardResource\<close> returns that
  error, but the first port's session is still registered with its stop channel open and
  port 8080 is still held, so the resource is left partially forwarded. For comparison, when
  it is the second port's session start that fails, the first session is stopped and both
  local ports are released.
\<close>

theorem allocation_failure_no_rollback:
  "fst (ForwardResource (clusterWorld [examplePod]) NewManager twoPortService
          [0 \<mapsto> 8080, 1 \<mapsto> 8080]) =
     Some (AllocRequestedFailed 8080 (PortAlreadyAllocated 8080)) \<and>
   map (\<lambda>fw. (LocalPort fw, RemotePort fw, StopChannel fw))
     (Forwarders (snd (snd (ForwardResource (clusterWorld [examplePod]) NewManager twoPortService
          [0 \<mapsto> 8080, 1 \<mapsto> 8080])))) = [(8080, 8080, Open)] \<and>
   lookupPort (PortAllocator (snd (snd (ForwardResource (clusterWorld [examplePod]) NewManager
          twoPortService [0 \<mapsto> 8080, 1 \<mapsto> 8080])))) 8080 \<and>
   fst (ForwardResource (flakyTransport [examplePod]) NewManager twoPortService
          [0 \<mapsto> 8080, 1 \<mapsto> 8443]) =
     Some (StartFailed ''web'' ''web-0'' RoundTripperFailed) \<and>
   map (\<lambda>fw. (LocalPort fw, RemotePort fw, StopChannel fw))
     (Forwarders (snd (snd (ForwardResource (flakyTransport [examplePod]) NewManager twoPortService
          [0 \<mapsto> 8080, 1 \<mapsto> 8443])))) = [(8080, 8080, Closed)] \<and>
   PortAllocator (snd (snd (ForwardResource (flakyTransport [examplePod]) NewManager
          twoPortService [0 \<mapsto> 8080, 1 \<mapsto> 8443]))) = NewPortAllocator"
  by (simp add: eval_defs clusterWorld_def flakyTransport_def examplePod_def twoPortService_def)

end
